theory Spec2Isabelle
  imports Complex_Main "HOL-Library.Multiset"
begin

section \<open>Errors\<close>

text \<open>
  \<open>HTTPException\<close> carries the status code and the detail string the services raise.
  \<open>IntegrityError\<close> is what the commit raises on a violated table constraint, and
  \<open>OverflowError\<close> what datetime arithmetic raises outside the years 1 to 9999 and what
  the SQLite driver raises for an integer that does not fit 64 bits.
  \<open>RequestValidationError\<close> carries the messages of the failed field validators of a
  request body; the handler in main.py answers it with status 422. \<open>ValidationError\<close>
  is the same failure raised while a route builds a response object.
\<close>

datatype error =
    HTTPException nat string
  | IntegrityError
  | OverflowError
  | RequestValidationError "string list"
  | ValidationError "string list"

abbreviation NotFound :: error where
  "NotFound \<equiv> HTTPException 404 ''Event not found''"

abbreviation CapacityExceeded :: error where
  "CapacityExceeded \<equiv> HTTPException 400 ''Event is at full capacity''"

abbreviation DuplicateRegistration :: error where
  "DuplicateRegistration \<equiv>
     HTTPException 400 ''Attendee with this email already registered for this event''"

abbreviation StorageFailure :: error where
  "StorageFailure \<equiv> IntegrityError"

text \<open>
  The status the client sees: the code of an \<open>HTTPException\<close>, 422 for a request
  validation error, and 500 for an exception no handler catches.
\<close>

fun status_code :: "error \<Rightarrow> nat" where
  "status_code (HTTPException c detail) = c"
| "status_code IntegrityError = 500"
| "status_code OverflowError = 500"
| "status_code (RequestValidationError msgs) = 422"
| "status_code (ValidationError msgs) = 500"

definition is_client_error :: "error \<Rightarrow> bool" where
  "is_client_error e = (400 \<le> status_code e \<and> status_code e < 500)"

section \<open>Timestamps (Python datetime, pytz)\<close>

text \<open>
  A Python \<open>datetime\<close> is a wall-clock reading, counted here in microseconds from
  1970-01-01T00:00:00, with an optional \<open>tzinfo\<close>. A naive value has no \<open>tzinfo\<close>; an
  aware one carries the UTC offset (microseconds east of UTC) that applies to it.
\<close>

datatype datetime = Naive int | Aware int int

text \<open>
  Python represents the wall clocks from \<open>datetime.min\<close> (0001-01-01T00:00:00) to
  \<open>datetime.max\<close> (9999-12-31T23:59:59.999999) only; arithmetic that leaves this range
  raises \<open>OverflowError\<close>.
\<close>

definition datetime_min :: int where
  "datetime_min = - 62135596800000000"

definition datetime_max :: int where
  "datetime_max = 253402300799999999"

definition in_range :: "int \<Rightarrow> bool" where
  "in_range w = (datetime_min \<le> w \<and> w \<le> datetime_max)"

text \<open>
  Both branches of \<open>ensure_timezone_awareness\<close> return an aware value, so every
  timestamp of a validated schema object is aware.
\<close>

record aware =
  wall :: int
  utcoffset :: int

text \<open>The absolute instant of an aware timestamp: its wall clock minus its offset.\<close>

definition instant :: "aware \<Rightarrow> int" where
  "instant d = wall d - utcoffset d"

text \<open>
  A pytz zone, as far as \<open>astimezone\<close> uses it: the UTC offset in force at a given
  UTC instant. The tz database itself is not part of the repository.
\<close>

type_synonym zone = "int \<Rightarrow> int"

definition pytz_utc :: zone where
  "pytz_utc = (\<lambda>u. 0)"

text \<open>
  The offset a zone gives to a naive wall-clock reading, or the exception the lookup
  raises: \<open>localize\<close> of a pytz zone, and the platform's local-time lookup that
  \<open>astimezone\<close> uses on a naive receiver. Neither is part of the repository.
\<close>

type_synonym localizer = "int \<Rightarrow> error + int"

text \<open>
  \<open>dt.astimezone(tz)\<close> on an aware \<open>dt\<close>: \<open>utc = self - offset\<close>, then \<open>tz.fromutc(utc)\<close>
  adds the offset \<open>tz\<close> has at that instant. Either step raises \<open>OverflowError\<close> when its
  result is outside the datetime range.
\<close>

definition astimezone :: "zone \<Rightarrow> aware \<Rightarrow> error + aware" where
  "astimezone tz d =
     (let utc = wall d - utcoffset d in
      if \<not> in_range utc then Inl OverflowError
      else
        let off = tz utc in
        if \<not> in_range (utc + off) then Inl OverflowError
        else Inr \<lparr>wall = utc + off, utcoffset = off\<rparr>)"

text \<open>
  \<open>dt.astimezone(tz)\<close> on a naive \<open>dt\<close>: Python takes the wall clock as local time of
  the process and proceeds as above with the offset \<open>local\<close> gives it.
\<close>

definition astimezone_naive :: "localizer \<Rightarrow> zone \<Rightarrow> int \<Rightarrow> error + aware" where
  "astimezone_naive local tz w =
     (case local w of
        Inl e \<Rightarrow> Inl e
      | Inr off \<Rightarrow> astimezone tz \<lparr>wall = w, utcoffset = off\<rparr>)"

section \<open>schemas.py\<close>

text \<open>
  The body of \<open>POST /events\<close>. A timestamp field is \<open>None\<close> when its string is not in
  ISO format (\<open>datetime.fromisoformat\<close> raises \<open>ValueError\<close>), otherwise the parsed value.
\<close>

record event_json =
  json_name :: string
  json_location :: string
  json_start_time :: "datetime option"
  json_end_time :: "datetime option"
  json_max_capacity :: int

record EventCreate =
  name :: string
  location :: string
  start_time :: aware
  end_time :: aware
  max_capacity :: int

text \<open>
  \<open>ensure_timezone_awareness\<close>: a naive value is localized to Asia/Kolkata, an aware one
  is returned as it is. The parameter \<open>kolkata\<close> is \<open>localize\<close> of that zone: the offset
  it picks for a wall-clock reading. An exception raised by \<open>localize\<close> is not a
  validation error: it ends the request.
\<close>

definition ensure_timezone_awareness :: "localizer \<Rightarrow> datetime \<Rightarrow> error + aware" where
  "ensure_timezone_awareness kolkata v =
     (case v of
        Naive w \<Rightarrow>
          (case kolkata w of
             Inl e \<Rightarrow> Inl e
           | Inr off \<Rightarrow> Inr \<lparr>wall = w, utcoffset = off\<rparr>)
      | Aware w off \<Rightarrow> Inr \<lparr>wall = w, utcoffset = off\<rparr>)"

text \<open>
  \<open>end_time_must_be_after_start_time\<close>: \<open>values\<close> holds \<open>start_time\<close> only when that
  field validated. Aware datetimes compare by instant. \<open>Inl\<close> is the message of the
  \<open>ValueError\<close> a validator raises.
\<close>

definition end_time_must_be_after_start_time :: "aware \<Rightarrow> aware option \<Rightarrow> string + aware" where
  "end_time_must_be_after_start_time v values_start_time =
     (case values_start_time of
        Some s \<Rightarrow>
          if instant v \<le> instant s
          then Inl ''End time must be after start time''
          else Inr v
      | None \<Rightarrow> Inr v)"

text \<open>
  The validation of one field: the outer \<open>Inl\<close> is an exception that ends the request,
  the inner one the message of a failed validation, which pydantic collects.
\<close>

definition validate_start_time :: "localizer \<Rightarrow> datetime option \<Rightarrow> error + (string + aware)" where
  "validate_start_time kolkata raw =
     (case raw of
        None \<Rightarrow> Inr (Inl ''Invalid isoformat string'')
      | Some v \<Rightarrow>
          (case ensure_timezone_awareness kolkata v of
             Inl e \<Rightarrow> Inl e
           | Inr a \<Rightarrow> Inr (Inr a)))"

definition validate_end_time ::
  "localizer \<Rightarrow> aware option \<Rightarrow> datetime option \<Rightarrow> error + (string + aware)" where
  "validate_end_time kolkata values_start_time raw =
     (case raw of
        None \<Rightarrow> Inr (Inl ''Invalid isoformat string'')
      | Some v \<Rightarrow>
          (case ensure_timezone_awareness kolkata v of
             Inl e \<Rightarrow> Inl e
           | Inr a \<Rightarrow> Inr (end_time_must_be_after_start_time a values_start_time)))"

fun messages :: "string + 'a \<Rightarrow> string list" where
  "messages (Inl m) = [m]"
| "messages (Inr v) = []"

text \<open>
  The two timestamp fields of \<open>EventBase\<close>: the fields are validated in declaration
  order, a field that validated is added to \<open>values\<close>, and the pair exists only when no
  field failed.
\<close>

definition validate_EventBase ::
  "localizer \<Rightarrow> datetime option \<Rightarrow> datetime option
     \<Rightarrow> error + (string list + (aware \<times> aware))" where
  "validate_EventBase kolkata raw_start raw_end =
     (case validate_start_time kolkata raw_start of
        Inl e \<Rightarrow> Inl e
      | Inr s \<Rightarrow>
          let values_start_time = (case s of Inr v \<Rightarrow> Some v | Inl m \<Rightarrow> None) in
          (case validate_end_time kolkata values_start_time raw_end of
             Inl e \<Rightarrow> Inl e
           | Inr t \<Rightarrow>
               Inr (case (s, t) of
                      (Inr sv, Inr tv) \<Rightarrow> Inr (sv, tv)
                    | _ \<Rightarrow> Inl (messages s @ messages t))))"

text \<open>
  Building an \<open>EventCreate\<close> from the body. \<open>max_capacity\<close> is declared \<open>int\<close> with no
  further constraint.
\<close>

definition parse_EventCreate ::
  "localizer \<Rightarrow> event_json \<Rightarrow> error + (string list + EventCreate)" where
  "parse_EventCreate kolkata body =
     (case validate_EventBase kolkata (json_start_time body) (json_end_time body) of
        Inl e \<Rightarrow> Inl e
      | Inr (Inl msgs) \<Rightarrow> Inr (Inl msgs)
      | Inr (Inr (sv, tv)) \<Rightarrow>
          Inr (Inr \<lparr>name = json_name body, location = json_location body,
                    start_time = sv, end_time = tv,
                    max_capacity = json_max_capacity body\<rparr>))"

text \<open>
  \<open>EventResponse\<close> has the fields and the validators of \<open>EventBase\<close> and the id. It is
  built from field values whose timestamps may be naive (a row of the store) or aware
  (the dictionary of \<open>read_events\<close>).
\<close>

record event_fields =
  f_id :: int
  f_name :: string
  f_location :: string
  f_start_time :: datetime
  f_end_time :: datetime
  f_max_capacity :: int

record EventResponse =
  er_id :: int
  er_name :: string
  er_location :: string
  er_start_time :: aware
  er_end_time :: aware
  er_max_capacity :: int

definition new_EventResponse :: "localizer \<Rightarrow> event_fields \<Rightarrow> error + EventResponse" where
  "new_EventResponse kolkata data =
     (case validate_EventBase kolkata (Some (f_start_time data)) (Some (f_end_time data)) of
        Inl e \<Rightarrow> Inl e
      | Inr (Inl msgs) \<Rightarrow> Inl (ValidationError msgs)
      | Inr (Inr (sv, tv)) \<Rightarrow>
          Inr \<lparr>er_id = f_id data, er_name = f_name data, er_location = f_location data,
               er_start_time = sv, er_end_time = tv,
               er_max_capacity = f_max_capacity data\<rparr>)"

record AttendeeCreate =
  ac_name :: string
  ac_email :: string

section \<open>models.py and the store\<close>

text \<open>
  The store is SQLite, the default \<open>DATABASE_URL\<close> of database.py and the store of the
  tests. A \<open>DateTime\<close> column keeps the wall clock of the value it is given and drops the
  \<open>tzinfo\<close>: a timestamp read from a row is naive. \<open>create_event\<close> writes UTC wall clocks.
\<close>

record Event =
  ev_id :: int
  ev_name :: string
  ev_location :: string
  ev_start_time :: int
  ev_end_time :: int
  ev_max_capacity :: int

record Attendee =
  at_id :: int
  at_name :: string
  at_email :: string
  at_event_id :: int

text \<open>The two tables, rows in insertion order.\<close>

record db =
  events :: "Event list"
  attendees :: "Attendee list"

text \<open>
  An integer primary key left unset on insert gets the largest key of the table plus
  one, and 1 in an empty table.
\<close>

definition next_id :: "int list \<Rightarrow> int" where
  "next_id ids = Max (set (0 # ids)) + 1"

text \<open>
  SQLite integers are 64-bit signed values: the driver raises \<open>OverflowError\<close> when a
  statement is given any other Python int, as a value to store or as a parameter of a
  \<open>WHERE\<close>, \<open>LIMIT\<close> or \<open>OFFSET\<close> clause.
\<close>

definition sqlite_integer :: "int \<Rightarrow> bool" where
  "sqlite_integer c = (- 9223372036854775808 \<le> c \<and> c \<le> 9223372036854775807)"

text \<open>\<open>result.scalars().first()\<close>: the first row, or \<open>None\<close>.\<close>

definition first :: "'a list \<Rightarrow> 'a option" where
  "first xs = (case xs of [] \<Rightarrow> None | x # rest \<Rightarrow> Some x)"

text \<open>
  \<open>OFFSET\<close> and \<open>LIMIT\<close> as SQLite applies them, after \<open>ORDER BY\<close>: a negative offset
  skips nothing, a negative limit is no limit. \<open>ORDER BY\<close> is \<open>sort_key\<close> below: rows with
  equal keys, whose order SQL leaves open, stay in insertion order.
\<close>

definition offset_limit :: "int \<Rightarrow> int \<Rightarrow> 'a list \<Rightarrow> error + 'a list" where
  "offset_limit off n xs =
     (if \<not> sqlite_integer off \<or> \<not> sqlite_integer n then Inl OverflowError
      else if n < 0 then Inr (drop (nat off) xs)
      else Inr (take (nat n) (drop (nat off) xs)))"

text \<open>\<open>select(Event).where(Event.id == event_id)\<close> and \<open>scalars().first()\<close>.\<close>

definition select_event :: "db \<Rightarrow> int \<Rightarrow> error + Event option" where
  "select_event d event_id =
     (if \<not> sqlite_integer event_id then Inl OverflowError
      else Inr (first (filter (\<lambda>e. ev_id e = event_id) (events d))))"

definition attendees_of :: "db \<Rightarrow> int \<Rightarrow> Attendee list" where
  "attendees_of d event_id = filter (\<lambda>a. at_event_id a = event_id) (attendees d)"

definition count_attendees :: "db \<Rightarrow> int \<Rightarrow> int" where
  "count_attendees d event_id = int (length (attendees_of d event_id))"

text \<open>
  \<open>db.add(db_attendee); await db.commit()\<close>. The table has the constraint
  \<open>UniqueConstraint('email', 'event_id')\<close>: the commit raises \<open>IntegrityError\<close> when a row
  with the same email and event exists, and otherwise appends the row with a fresh id.
\<close>

definition commit_attendee :: "db \<Rightarrow> string \<Rightarrow> string \<Rightarrow> int \<Rightarrow> error + (Attendee \<times> db)" where
  "commit_attendee d nm em event_id =
     (if filter (\<lambda>a. at_email a = em \<and> at_event_id a = event_id) (attendees d) \<noteq> []
      then Inl IntegrityError
      else
        let row = \<lparr>at_id = next_id (map at_id (attendees d)), at_name = nm,
                   at_email = em, at_event_id = event_id\<rparr>
        in Inr (row, d\<lparr>attendees := attendees d @ [row]\<rparr>))"

section \<open>event_service.py\<close>

text \<open>
  \<open>create_event\<close>: both timestamps are converted to UTC, which raises \<open>OverflowError\<close>
  outside the datetime range; the commit raises \<open>OverflowError\<close> for a \<open>max_capacity\<close>
  that is no SQLite integer. In both cases nothing is stored. Otherwise the row is
  appended, and the refreshed row comes back with the naive UTC wall clocks.
\<close>

definition create_event :: "db \<Rightarrow> EventCreate \<Rightarrow> error + (Event \<times> db)" where
  "create_event d event_data =
     (case astimezone pytz_utc (start_time event_data) of
        Inl e \<Rightarrow> Inl e
      | Inr utc_start_time \<Rightarrow>
          (case astimezone pytz_utc (end_time event_data) of
             Inl e \<Rightarrow> Inl e
           | Inr utc_end_time \<Rightarrow>
               if \<not> sqlite_integer (max_capacity event_data) then Inl OverflowError
               else
                 let db_event = \<lparr>ev_id = next_id (map ev_id (events d)),
                                 ev_name = name event_data,
                                 ev_location = location event_data,
                                 ev_start_time = wall utc_start_time,
                                 ev_end_time = wall utc_end_time,
                                 ev_max_capacity = max_capacity event_data\<rparr>
                 in Inr (db_event, d\<lparr>events := events d @ [db_event]\<rparr>)))"

text \<open>
  \<open>get_events\<close>: the events whose end is after \<open>now_utc\<close>, ordered by start, then
  offset and limit. \<open>now_utc\<close> is the UTC wall clock of \<open>datetime.now(pytz.utc)\<close>; the
  store compares it with the stored wall clocks.
\<close>

definition get_events :: "db \<Rightarrow> int \<Rightarrow> int \<Rightarrow> int \<Rightarrow> error + Event list" where
  "get_events d now_utc skip limit =
     offset_limit skip limit
       (sort_key ev_start_time
          (filter (\<lambda>e. ev_end_time e > now_utc) (events d)))"

definition get_event_by_id :: "db \<Rightarrow> int \<Rightarrow> error + Event option" where
  "get_event_by_id d event_id = select_event d event_id"

definition get_event_attendee_count :: "db \<Rightarrow> int \<Rightarrow> error + int" where
  "get_event_attendee_count d event_id =
     (if \<not> sqlite_integer event_id then Inl OverflowError
      else Inr (count_attendees d event_id))"

section \<open>attendee_service.py\<close>

text \<open>
  \<open>register_attendee\<close> reads three times and then commits. \<open>d\<close> is the store its reads
  see and \<open>d_commit\<close> the store its commit meets: the two differ when another request
  commits in between.
\<close>

definition register_attendee_at ::
  "db \<Rightarrow> db \<Rightarrow> int \<Rightarrow> AttendeeCreate \<Rightarrow> error + (Attendee \<times> db)" where
  "register_attendee_at d d_commit event_id attendee_data =
     (case select_event d event_id of
        Inl e \<Rightarrow> Inl e
      | Inr None \<Rightarrow> Inl (HTTPException 404 ''Event not found'')
      | Inr (Some event) \<Rightarrow>
          let current_attendee_count = count_attendees d event_id in
          if current_attendee_count \<ge> ev_max_capacity event
          then Inl (HTTPException 400 ''Event is at full capacity'')
          else
            (case first (filter (\<lambda>a. at_event_id a = event_id
                                    \<and> at_email a = ac_email attendee_data) (attendees d)) of
               Some existing_attendee \<Rightarrow>
                 Inl (HTTPException 400
                   ''Attendee with this email already registered for this event'')
             | None \<Rightarrow>
                 commit_attendee d_commit (ac_name attendee_data)
                   (ac_email attendee_data) event_id))"

text \<open>Sequential execution: nothing happens between the reads and the commit.\<close>

definition register_attendee :: "db \<Rightarrow> int \<Rightarrow> AttendeeCreate \<Rightarrow> error + (Attendee \<times> db)" where
  "register_attendee d event_id attendee_data =
     register_attendee_at d d event_id attendee_data"

record PaginatedAttendeesResponse =
  total :: int
  page :: int
  size_r :: int
  pages :: int
  items :: "Attendee list"

text \<open>
  \<open>get_attendees_for_event\<close>: the page and the size are clamped, the event is looked up,
  the attendees are counted and the page is read. The response object validates each row
  as an \<open>AttendeeResponse\<close>; the rows of the store were validated as \<open>AttendeeCreate\<close> when
  they were registered, so this validation passes.
\<close>

definition get_attendees_for_event ::
  "db \<Rightarrow> int \<Rightarrow> int \<Rightarrow> int \<Rightarrow> error + PaginatedAttendeesResponse" where
  "get_attendees_for_event d event_id page0 size0 =
     (let page1 = (if page0 < 1 then 1 else page0);
          size1 = (if size0 < 1 then 10 else size0);
          offset = (page1 - 1) * size1
      in case select_event d event_id of
           Inl e \<Rightarrow> Inl e
         | Inr None \<Rightarrow> Inl (HTTPException 404 ''Event not found'')
         | Inr (Some event) \<Rightarrow>
             let total_attendees = count_attendees d event_id in
             (case offset_limit offset size1 (sort_key at_id (attendees_of d event_id)) of
                Inl e \<Rightarrow> Inl e
              | Inr attendees_page \<Rightarrow>
                  let total_pages = (total_attendees + size1 - 1) div size1
                  in Inr \<lparr>total = total_attendees, page = page1, size_r = size1,
                          pages = total_pages, items = attendees_page\<rparr>))"

section \<open>routers/events.py\<close>

text \<open>The attributes of a row, as \<open>orm_mode\<close> reads them: the timestamps are naive.\<close>

definition orm_fields :: "Event \<Rightarrow> event_fields" where
  "orm_fields event_model =
     \<lparr>f_id = ev_id event_model,
      f_name = ev_name event_model,
      f_location = ev_location event_model,
      f_start_time = Naive (ev_start_time event_model),
      f_end_time = Naive (ev_end_time event_model),
      f_max_capacity = ev_max_capacity event_model\<rparr>"

text \<open>
  \<open>POST /events\<close>: the body is validated, then the service persists the event, then the
  returned row is turned into the \<open>response_model\<close>, an \<open>EventResponse\<close>, whose validators
  run on the row's attributes. The result is the answer and the store after the request:
  a failure while the response is built comes after the commit.
\<close>

definition post_event ::
  "localizer \<Rightarrow> db \<Rightarrow> event_json \<Rightarrow> (error + EventResponse) \<times> db" where
  "post_event kolkata d body =
     (case parse_EventCreate kolkata body of
        Inl e \<Rightarrow> (Inl e, d)
      | Inr (Inl msgs) \<Rightarrow> (Inl (RequestValidationError msgs), d)
      | Inr (Inr event) \<Rightarrow>
          (case create_event d event of
             Inl e \<Rightarrow> (Inl e, d)
           | Inr (db_event, d') \<Rightarrow> (new_EventResponse kolkata (orm_fields db_event), d')))"

text \<open>
  The dictionary \<open>read_events\<close> builds for each event: both timestamps, naive as the
  store returns them, converted to the target zone by \<open>astimezone\<close>, the other fields
  copied. \<open>local\<close> is the local zone of the process.
\<close>

definition response_event_data :: "localizer \<Rightarrow> zone \<Rightarrow> Event \<Rightarrow> error + event_fields" where
  "response_event_data local target_tz event_model =
     (case astimezone_naive local target_tz (ev_start_time event_model) of
        Inl e \<Rightarrow> Inl e
      | Inr s \<Rightarrow>
          (case astimezone_naive local target_tz (ev_end_time event_model) of
             Inl e \<Rightarrow> Inl e
           | Inr t \<Rightarrow>
               Inr \<lparr>f_id = ev_id event_model,
                    f_name = ev_name event_model,
                    f_location = ev_location event_model,
                    f_start_time = Aware (wall s) (utcoffset s),
                    f_end_time = Aware (wall t) (utcoffset t),
                    f_max_capacity = ev_max_capacity event_model\<rparr>))"

text \<open>The loop of \<open>read_events\<close>: the first event that fails ends the request.\<close>

fun response_events ::
  "localizer \<Rightarrow> localizer \<Rightarrow> zone \<Rightarrow> Event list \<Rightarrow> error + EventResponse list" where
  "response_events local kolkata target_tz [] = Inr []"
| "response_events local kolkata target_tz (event_model # rest) =
     (case response_event_data local target_tz event_model of
        Inl e \<Rightarrow> Inl e
      | Inr data \<Rightarrow>
          (case new_EventResponse kolkata data of
             Inl e \<Rightarrow> Inl e
           | Inr r \<Rightarrow>
               (case response_events local kolkata target_tz rest of
                  Inl e \<Rightarrow> Inl e
                | Inr rs \<Rightarrow> Inr (r # rs))))"

text \<open>
  \<open>GET /events\<close>. \<open>tzdb\<close> is \<open>pytz.timezone\<close>: the zone of a name, or \<open>None\<close> where it
  raises \<open>UnknownTimeZoneError\<close>.
\<close>

definition read_events ::
  "localizer \<Rightarrow> localizer \<Rightarrow> (string \<Rightarrow> zone option) \<Rightarrow> db \<Rightarrow> int \<Rightarrow> int \<Rightarrow> int \<Rightarrow> string
     \<Rightarrow> error + EventResponse list" where
  "read_events local kolkata tzdb d now_utc skip limit x_timezone =
     (case tzdb x_timezone of
        None \<Rightarrow> Inl (HTTPException 400 ''Invalid X-Timezone header value.'')
      | Some target_tz \<Rightarrow>
          (case get_events d now_utc skip limit of
             Inl e \<Rightarrow> Inl e
           | Inr upcoming \<Rightarrow> response_events local kolkata target_tz upcoming))"


text \<open>
  The item lists of the pages 1 to \<open>n\<close> of one event, fetched one after the other and
  concatenated; the first page that fails ends the run.
\<close>

fun collect_pages :: "db \<Rightarrow> int \<Rightarrow> int \<Rightarrow> nat \<Rightarrow> error + Attendee list" where
  "collect_pages d event_id s 0 = Inr []"
| "collect_pages d event_id s (Suc n) =
     (case collect_pages d event_id s n of
        Inl e \<Rightarrow> Inl e
      | Inr xs \<Rightarrow>
          (case get_attendees_for_event d event_id (int (Suc n)) s of
             Inl e \<Rightarrow> Inl e
           | Inr r \<Rightarrow> Inr (xs @ items r)))"

section \<open>Concrete data\<close>

text \<open>\<open>v.tzinfo\<close> of a parsed timestamp.\<close>

fun tzinfo :: "datetime \<Rightarrow> int option" where
  "tzinfo (Naive w) = None"
| "tzinfo (Aware w off) = Some off"

text \<open>
  Asia/Kolkata as the tz database has it for every date since 1945: five and a half
  hours east of UTC, in microseconds. It serves as \<open>localize\<close> of that zone and as the
  local zone of a process that runs with \<open>TZ=Asia/Kolkata\<close>.
\<close>

definition ist_offset :: localizer where
  "ist_offset w = Inr 19800000000"

text \<open>The local zone of a process that runs with \<open>TZ=UTC\<close>.\<close>

definition utc_offset :: localizer where
  "utc_offset w = Inr 0"

text \<open>\<open>pytz.timezone\<close> on the two names the examples use; every other name is unknown.\<close>

definition tz_names :: "string \<Rightarrow> zone option" where
  "tz_names n =
     (if n = ''UTC'' then Some pytz_utc
      else if n = ''Asia/Kolkata'' then Some (\<lambda>u. 19800000000)
      else None)"

definition empty_db :: db where
  "empty_db = \<lparr>events = [], attendees = []\<rparr>"

text \<open>
  The event of \<open>test_register_attendee_event_at_full_capacity\<close> (one seat) and of
  \<open>test_register_attendee_for_event\<close> (two seats), with the two attendees of the former.
\<close>

definition workshop :: Event where
  "workshop =
     \<lparr>ev_id = 1, ev_name = ''Limited Slot Workshop'', ev_location = ''Small Room'',
      ev_start_time = 1000, ev_end_time = 2000, ev_max_capacity = 1\<rparr>"

definition meetup :: Event where
  "meetup =
     \<lparr>ev_id = 2, ev_name = ''Community Meetup'', ev_location = ''Local Hall'',
      ev_start_time = 1000, ev_end_time = 2000, ev_max_capacity = 2\<rparr>"

definition test_db :: db where
  "test_db = \<lparr>events = [workshop, meetup], attendees = []\<rparr>"

definition first_user :: AttendeeCreate where
  "first_user = \<lparr>ac_name = ''First User'', ac_email = ''first@example.com''\<rparr>"


text \<open>
  The body of \<open>test_create_event\<close>, with the start at 2030-01-01T00:00:00+05:30 and
  the end two hours later.
\<close>

definition conference_json :: event_json where
  "conference_json =
     \<lparr>json_name = ''Tech Conference 2025'',
      json_location = ''Bangalore International Exhibition Centre'',
      json_start_time = Some (Aware 1893456000000000 19800000000),
      json_end_time = Some (Aware 1893463200000000 19800000000),
      json_max_capacity = 500\<rparr>"

text \<open>
  The row \<open>create_event\<close> stores for it in an empty store, with the UTC wall clocks
  2029-12-31T18:30:00 and 2029-12-31T20:30:00.
\<close>

definition conference :: Event where
  "conference =
     \<lparr>ev_id = 1, ev_name = ''Tech Conference 2025'',
      ev_location = ''Bangalore International Exhibition Centre'',
      ev_start_time = 1893436200000000, ev_end_time = 1893443400000000,
      ev_max_capacity = 500\<rparr>"

text \<open>The rows the registrations of the two users for event \<open>e\<close> create, in this order.\<close>

definition first_row :: "int \<Rightarrow> Attendee" where
  "first_row e = \<lparr>at_id = 1, at_name = ''First User'',
                  at_email = ''first@example.com'', at_event_id = e\<rparr>"

definition second_row :: "int \<Rightarrow> Attendee" where
  "second_row e = \<lparr>at_id = 2, at_name = ''Second User'',
                   at_email = ''second@example.com'', at_event_id = e\<rparr>"

definition one_seat_taken :: db where
  "one_seat_taken = \<lparr>events = [workshop, meetup], attendees = [first_row 1]\<rparr>"

definition meetup_full :: db where
  "meetup_full = \<lparr>events = [workshop, meetup], attendees = [first_row 2, second_row 2]\<rparr>"

section \<open>Event creation: validation and storage\<close>

lemma astimezone_utc:
  "astimezone pytz_utc a =
     (if in_range (instant a) then Inr \<lparr>wall = instant a, utcoffset = 0\<rparr>
      else Inl OverflowError)"
  by (simp add: astimezone_def pytz_utc_def instant_def Let_def)

lemma ensure_timezone_awareness_Aware:
  "ensure_timezone_awareness kolkata (Aware w off) = Inr \<lparr>wall = w, utcoffset = off\<rparr>"
  by (simp add: ensure_timezone_awareness_def)

lemma ensure_timezone_awareness_Naive:
  "ensure_timezone_awareness kolkata (Naive w) = Inr a \<Longrightarrow>
     kolkata w = Inr (utcoffset a) \<and> wall a = w"
  by (auto simp: ensure_timezone_awareness_def split: sum.splits)

lemma validate_EventBase_Some:
  "ensure_timezone_awareness kolkata s = Inr sa \<Longrightarrow>
   ensure_timezone_awareness kolkata t = Inr ta \<Longrightarrow>
   validate_EventBase kolkata (Some s) (Some t) =
     Inr (if instant ta \<le> instant sa
          then Inl [''End time must be after start time'']
          else Inr (sa, ta))"
  by (simp add: validate_EventBase_def validate_start_time_def validate_end_time_def
      end_time_must_be_after_start_time_def)

lemma validate_EventBase_Inr:
  assumes "validate_EventBase kolkata rs rt = Inr (Inr (sa, ta))"
  shows "instant sa < instant ta"
proof -
  from assms obtain s where s: "validate_start_time kolkata rs = Inr s"
    by (auto simp: validate_EventBase_def split: sum.splits)
  with assms obtain t where
    t: "validate_end_time kolkata (case s of Inr v \<Rightarrow> Some v | Inl m \<Rightarrow> None) rt = Inr t"
    by (auto simp: validate_EventBase_def split: sum.splits)
  from assms s t have st: "s = Inr sa" "t = Inr ta"
    by (auto simp: validate_EventBase_def split: sum.splits)
  from t st show ?thesis
    by (auto simp: validate_end_time_def end_time_must_be_after_start_time_def
        split: option.splits sum.splits if_splits)
qed

lemma parse_EventCreate_Some:
  "json_start_time body = Some s \<Longrightarrow> json_end_time body = Some t \<Longrightarrow>
   ensure_timezone_awareness kolkata s = Inr sa \<Longrightarrow>
   ensure_timezone_awareness kolkata t = Inr ta \<Longrightarrow>
   parse_EventCreate kolkata body =
     Inr (if instant ta \<le> instant sa
          then Inl [''End time must be after start time'']
          else Inr \<lparr>name = json_name body, location = json_location body,
                    start_time = sa, end_time = ta,
                    max_capacity = json_max_capacity body\<rparr>)"
  by (simp add: parse_EventCreate_def validate_EventBase_Some)

lemma parse_EventCreate_Inr:
  assumes "parse_EventCreate kolkata body = Inr (Inr data)"
  shows "instant (start_time data) < instant (end_time data)"
proof -
  from assms obtain sa ta where
    v: "validate_EventBase kolkata (json_start_time body) (json_end_time body)
          = Inr (Inr (sa, ta))"
    and d: "start_time data = sa" "end_time data = ta"
    by (auto simp: parse_EventCreate_def split: sum.splits)
  from validate_EventBase_Inr[OF v] d show ?thesis by simp
qed

lemma new_EventResponse_Inr:
  assumes "new_EventResponse kolkata data = Inr resp"
  shows "instant (er_start_time resp) < instant (er_end_time resp)"
proof -
  from assms obtain sa ta where
    v: "validate_EventBase kolkata (Some (f_start_time data)) (Some (f_end_time data))
          = Inr (Inr (sa, ta))"
    and d: "er_start_time resp = sa" "er_end_time resp = ta"
    by (auto simp: new_EventResponse_def split: sum.splits)
  from validate_EventBase_Inr[OF v] d show ?thesis by simp
qed

lemma create_event_ok:
  "in_range (instant (start_time data)) \<Longrightarrow> in_range (instant (end_time data)) \<Longrightarrow>
   sqlite_integer (max_capacity data) \<Longrightarrow>
   create_event d data =
     Inr (\<lparr>ev_id = next_id (map ev_id (events d)), ev_name = name data,
           ev_location = location data,
           ev_start_time = instant (start_time data),
           ev_end_time = instant (end_time data),
           ev_max_capacity = max_capacity data\<rparr>,
          d\<lparr>events := events d @
            [\<lparr>ev_id = next_id (map ev_id (events d)), ev_name = name data,
              ev_location = location data,
              ev_start_time = instant (start_time data),
              ev_end_time = instant (end_time data),
              ev_max_capacity = max_capacity data\<rparr>]\<rparr>)"
  by (simp add: create_event_def astimezone_utc Let_def)

lemma create_event_Inr:
  assumes "create_event d data = Inr (ev, d')"
  shows "ev_start_time ev = instant (start_time data)
     \<and> ev_end_time ev = instant (end_time data)
     \<and> ev_max_capacity ev = max_capacity data
     \<and> sqlite_integer (max_capacity data)
     \<and> in_range (ev_start_time ev) \<and> in_range (ev_end_time ev)
     \<and> d' = d\<lparr>events := events d @ [ev]\<rparr>"
  using assms
  by (auto simp: create_event_def astimezone_utc Let_def split: if_splits)

lemma create_event_Inl: "create_event d data = Inl e \<Longrightarrow> e = OverflowError"
  by (auto simp: create_event_def astimezone_utc Let_def split: if_splits)

lemma post_event_ok:
  assumes "json_start_time body = Some s" and "json_end_time body = Some t"
    and "ensure_timezone_awareness kolkata s = Inr sa"
    and "ensure_timezone_awareness kolkata t = Inr ta"
    and "instant sa < instant ta"
    and "in_range (instant sa)" and "in_range (instant ta)"
    and "sqlite_integer (json_max_capacity body)"
  shows "post_event kolkata d body =
     (new_EventResponse kolkata (orm_fields
        \<lparr>ev_id = next_id (map ev_id (events d)), ev_name = json_name body,
         ev_location = json_location body,
         ev_start_time = instant sa, ev_end_time = instant ta,
         ev_max_capacity = json_max_capacity body\<rparr>),
      d\<lparr>events := events d @
        [\<lparr>ev_id = next_id (map ev_id (events d)), ev_name = json_name body,
          ev_location = json_location body,
          ev_start_time = instant sa, ev_end_time = instant ta,
          ev_max_capacity = json_max_capacity body\<rparr>]\<rparr>)"
proof -
  let ?data = "\<lparr>name = json_name body, location = json_location body,
                 start_time = sa, end_time = ta,
                 max_capacity = json_max_capacity body\<rparr>"
  from assms(1-5) have p: "parse_EventCreate kolkata body = Inr (Inr ?data)"
    by (simp add: parse_EventCreate_Some)
  from assms(6-8) create_event_ok[of ?data d] show ?thesis
    by (simp add: post_event_def p)
qed

lemma post_event_created:
  assumes "post_event kolkata d body = (r, d')"
  shows "d' = d \<or> (\<exists>ev. d' = d\<lparr>events := events d @ [ev]\<rparr>
                      \<and> ev_start_time ev < ev_end_time ev)"
proof (cases "parse_EventCreate kolkata body")
  case (Inl e)
  with assms show ?thesis by (simp add: post_event_def)
next
  case (Inr v)
  show ?thesis
  proof (cases v)
    case (Inl msgs)
    with Inr assms show ?thesis by (simp add: post_event_def)
  next
    case p: (Inr data)
    show ?thesis
    proof (cases "create_event d data")
      case (Inl e)
      with Inr p assms show ?thesis by (simp add: post_event_def)
    next
      case c: (Inr pair)
      obtain ev d1 where pair: "pair = (ev, d1)" by (cases pair)
      from Inr p c pair assms have d1: "d' = d1" by (simp add: post_event_def)
      from Inr p have "instant (start_time data) < instant (end_time data)"
        using parse_EventCreate_Inr by simp
      with create_event_Inr[of d data ev d1] c pair d1 show ?thesis by auto
    qed
  qed
qed

lemma post_event_response:
  assumes "post_event kolkata d body = (Inr resp, d')"
  shows "instant (er_start_time resp) < instant (er_end_time resp)"
proof -
  from assms obtain data where "new_EventResponse kolkata data = Inr resp"
    by (auto simp: post_event_def split: sum.splits prod.splits)
  then show ?thesis by (rule new_EventResponse_Inr)
qed

text \<open>
  C1 (as the code has it). A timestamp without timezone information is not rejected:
  \<open>ensure_timezone_awareness\<close> reads it as Asia/Kolkata wall-clock time. The claim of a
  rejection fails on a body whose two timestamps are naive: the request is answered with
  the created event, and the event is in the store, both wall clocks moved five and a
  half hours back to UTC.
\<close>

theorem naive_timestamp_accepted:
  "post_event ist_offset empty_db
     \<lparr>json_name = ''Meetup'', json_location = ''Pune'',
      json_start_time = Some (Naive 0), json_end_time = Some (Naive 3600000000),
      json_max_capacity = 5\<rparr>
   = (Inr \<lparr>er_id = 1, er_name = ''Meetup'', er_location = ''Pune'',
           er_start_time = \<lparr>wall = - 19800000000, utcoffset = 19800000000\<rparr>,
           er_end_time = \<lparr>wall = - 16200000000, utcoffset = 19800000000\<rparr>,
           er_max_capacity = 5\<rparr>,
      \<lparr>events = [\<lparr>ev_id = 1, ev_name = ''Meetup'', ev_location = ''Pune'',
                   ev_start_time = - 19800000000, ev_end_time = - 16200000000,
                   ev_max_capacity = 5\<rparr>],
       attendees = []\<rparr>)"
  by (simp add: post_event_def parse_EventCreate_def validate_EventBase_def
      validate_start_time_def validate_end_time_def end_time_must_be_after_start_time_def
      ensure_timezone_awareness_def instant_def ist_offset_def create_event_def
      astimezone_def pytz_utc_def in_range_def datetime_min_def datetime_max_def
      sqlite_integer_def next_id_def empty_db_def new_EventResponse_def orm_fields_def
      Let_def)

text \<open>
  C1, amended. For every body whose \<open>start_time\<close> or \<open>end_time\<close> carries no timezone
  information, the naive timestamp is not rejected: it is given the offset \<open>localize\<close>
  of Asia/Kolkata picks for its wall clock. Whenever \<open>localize\<close> does not raise, the end
  instant so obtained is after the start instant, both instants are within the datetime
  range and \<open>max_capacity\<close> is a 64-bit integer, the body passes validation and the event
  is persisted: the store after the request is the store before it with one more row,
  which holds the UTC wall clocks of the two instants, and the answer is built from
  that row.
\<close>

theorem naive_timestamp_localized:
  assumes "json_start_time body = Some s" and "json_end_time body = Some t"
    and "tzinfo s = None \<or> tzinfo t = None"
    and "ensure_timezone_awareness kolkata s = Inr sa"
    and "ensure_timezone_awareness kolkata t = Inr ta"
    and "instant sa < instant ta"
    and "in_range (instant sa)" and "in_range (instant ta)"
    and "sqlite_integer (json_max_capacity body)"
  shows "post_event kolkata d body =
     (new_EventResponse kolkata (orm_fields
        \<lparr>ev_id = next_id (map ev_id (events d)), ev_name = json_name body,
         ev_location = json_location body,
         ev_start_time = instant sa, ev_end_time = instant ta,
         ev_max_capacity = json_max_capacity body\<rparr>),
      d\<lparr>events := events d @
        [\<lparr>ev_id = next_id (map ev_id (events d)), ev_name = json_name body,
          ev_location = json_location body,
          ev_start_time = instant sa, ev_end_time = instant ta,
          ev_max_capacity = json_max_capacity body\<rparr>]\<rparr>)
     \<and> (\<forall>w. s = Naive w \<longrightarrow> kolkata w = Inr (utcoffset sa) \<and> wall sa = w)
     \<and> (\<forall>w. t = Naive w \<longrightarrow> kolkata w = Inr (utcoffset ta) \<and> wall ta = w)"
proof (intro conjI allI impI)
  from assms(1,2,4-9) show "post_event kolkata d body =
     (new_EventResponse kolkata (orm_fields
        \<lparr>ev_id = next_id (map ev_id (events d)), ev_name = json_name body,
         ev_location = json_location body,
         ev_start_time = instant sa, ev_end_time = instant ta,
         ev_max_capacity = json_max_capacity body\<rparr>),
      d\<lparr>events := events d @
        [\<lparr>ev_id = next_id (map ev_id (events d)), ev_name = json_name body,
          ev_location = json_location body,
          ev_start_time = instant sa, ev_end_time = instant ta,
          ev_max_capacity = json_max_capacity body\<rparr>]\<rparr>)"
    by (rule post_event_ok)
next
  fix w assume "s = Naive w"
  with assms(4) ensure_timezone_awareness_Naive[of kolkata w sa]
  show "kolkata w = Inr (utcoffset sa)" and "wall sa = w" by simp_all
next
  fix w assume "t = Naive w"
  with assms(5) ensure_timezone_awareness_Naive[of kolkata w ta]
  show "kolkata w = Inr (utcoffset ta)" and "wall ta = w" by simp_all
qed

theorem naive_timestamp_localized_witness:
  "post_event ist_offset empty_db
     \<lparr>json_name = ''Meetup'', json_location = ''Pune'',
      json_start_time = Some (Naive 0), json_end_time = Some (Aware 3600000000 0),
      json_max_capacity = 5\<rparr>
   = (new_EventResponse ist_offset (orm_fields
        \<lparr>ev_id = 1, ev_name = ''Meetup'', ev_location = ''Pune'',
         ev_start_time = - 19800000000, ev_end_time = 3600000000,
         ev_max_capacity = 5\<rparr>),
      \<lparr>events = [\<lparr>ev_id = 1, ev_name = ''Meetup'', ev_location = ''Pune'',
                   ev_start_time = - 19800000000, ev_end_time = 3600000000,
                   ev_max_capacity = 5\<rparr>],
       attendees = []\<rparr>)
   \<and> ist_offset 0 = Inr 19800000000"
  using naive_timestamp_localized
    [of "\<lparr>json_name = ''Meetup'', json_location = ''Pune'',
          json_start_time = Some (Naive 0), json_end_time = Some (Aware 3600000000 0),
          json_max_capacity = 5\<rparr>"
        "Naive 0" "Aware 3600000000 0" ist_offset
        "\<lparr>wall = 0, utcoffset = 19800000000\<rparr>" "\<lparr>wall = 3600000000, utcoffset = 0\<rparr>"
        empty_db]
  by (simp add: ensure_timezone_awareness_def instant_def ist_offset_def in_range_def
      datetime_min_def datetime_max_def sqlite_integer_def next_id_def empty_db_def)

text \<open>
  C2 (as the code has it). \<open>max_capacity\<close> is declared \<open>int\<close> and nothing checks its
  sign: the conference of \<open>test_create_event\<close> with capacity 0 is created and persisted.
\<close>

theorem zero_capacity_created:
  "post_event ist_offset empty_db (conference_json\<lparr>json_max_capacity := 0\<rparr>)
   = (Inr \<lparr>er_id = 1, er_name = ''Tech Conference 2025'',
           er_location = ''Bangalore International Exhibition Centre'',
           er_start_time = \<lparr>wall = 1893436200000000, utcoffset = 19800000000\<rparr>,
           er_end_time = \<lparr>wall = 1893443400000000, utcoffset = 19800000000\<rparr>,
           er_max_capacity = 0\<rparr>,
      \<lparr>events = [\<lparr>ev_id = 1, ev_name = ''Tech Conference 2025'',
                   ev_location = ''Bangalore International Exhibition Centre'',
                   ev_start_time = 1893436200000000, ev_end_time = 1893443400000000,
                   ev_max_capacity = 0\<rparr>],
       attendees = []\<rparr>)"
  by (simp add: post_event_def parse_EventCreate_def validate_EventBase_def
      validate_start_time_def validate_end_time_def end_time_must_be_after_start_time_def
      ensure_timezone_awareness_def instant_def ist_offset_def create_event_def
      astimezone_def pytz_utc_def in_range_def datetime_min_def datetime_max_def
      sqlite_integer_def next_id_def empty_db_def new_EventResponse_def orm_fields_def
      conference_json_def Let_def)

text \<open>
  C2, amended. A \<open>max_capacity\<close> that is zero or negative is not rejected: for every body
  whose timestamps validate (\<open>localize\<close> does not raise, the end instant is after the
  start instant, both within the datetime range) and every \<open>c\<close> from \<open>-2^63\<close> to 0, the
  body with \<open>max_capacity = c\<close> passes validation and the event is persisted with
  \<open>max_capacity = c\<close>: the store after the request is the store before it with that one
  more row.
\<close>

theorem nonpositive_capacity_stored:
  assumes "json_start_time body = Some s" and "json_end_time body = Some t"
    and "ensure_timezone_awareness kolkata s = Inr sa"
    and "ensure_timezone_awareness kolkata t = Inr ta"
    and "instant sa < instant ta"
    and "in_range (instant sa)" and "in_range (instant ta)"
    and "- 9223372036854775808 \<le> c" and "c \<le> 0"
  shows "post_event kolkata d (body\<lparr>json_max_capacity := c\<rparr>) =
     (new_EventResponse kolkata (orm_fields
        \<lparr>ev_id = next_id (map ev_id (events d)), ev_name = json_name body,
         ev_location = json_location body,
         ev_start_time = instant sa, ev_end_time = instant ta,
         ev_max_capacity = c\<rparr>),
      d\<lparr>events := events d @
        [\<lparr>ev_id = next_id (map ev_id (events d)), ev_name = json_name body,
          ev_location = json_location body,
          ev_start_time = instant sa, ev_end_time = instant ta,
          ev_max_capacity = c\<rparr>]\<rparr>)"
proof -
  from assms(8,9) have "sqlite_integer (json_max_capacity (body\<lparr>json_max_capacity := c\<rparr>))"
    by (simp add: sqlite_integer_def)
  with assms(1-7) post_event_ok[of "body\<lparr>json_max_capacity := c\<rparr>" s t kolkata sa ta d]
  show ?thesis by simp
qed

theorem nonpositive_capacity_stored_witness:
  "post_event ist_offset empty_db (conference_json\<lparr>json_max_capacity := - 5\<rparr>) =
     (new_EventResponse ist_offset (orm_fields (conference\<lparr>ev_max_capacity := - 5\<rparr>)),
      \<lparr>events = [conference\<lparr>ev_max_capacity := - 5\<rparr>], attendees = []\<rparr>)"
  using nonpositive_capacity_stored
    [of conference_json "Aware 1893456000000000 19800000000"
        "Aware 1893463200000000 19800000000" ist_offset
        "\<lparr>wall = 1893456000000000, utcoffset = 19800000000\<rparr>"
        "\<lparr>wall = 1893463200000000, utcoffset = 19800000000\<rparr>" "- 5" empty_db]
  by (simp add: conference_json_def conference_def ensure_timezone_awareness_def
      instant_def in_range_def datetime_min_def datetime_max_def next_id_def empty_db_def)

text \<open>
  C7. For every pair of timezone-aware timestamps with \<open>end_time \<le> start_time\<close> (as
  instants), \<open>POST /events\<close> fails with the validation error of
  \<open>end_time_must_be_after_start_time\<close> and the service is never called: the store is
  the one before the request. And whatever the body and the answer, a request leaves
  the store as it was or adds one event whose end is after its start, and an event in
  an answer has its end after its start.
\<close>

theorem end_not_after_start_rejected:
  "(json_start_time body = Some (Aware ws wo) \<and> json_end_time body = Some (Aware es eo)
      \<and> es - eo \<le> ws - wo
     \<longrightarrow> post_event kolkata d body
           = (Inl (RequestValidationError [''End time must be after start time'']), d))
   \<and> (post_event kolkata d2 body2 = (r, d')
     \<longrightarrow> (d' = d2 \<or> (\<exists>ev. d' = d2\<lparr>events := events d2 @ [ev]\<rparr>
                          \<and> ev_start_time ev < ev_end_time ev))
       \<and> (\<forall>resp. r = Inr resp
            \<longrightarrow> instant (er_start_time resp) < instant (er_end_time resp)))"
proof (intro conjI impI allI)
  assume "json_start_time body = Some (Aware ws wo) \<and> json_end_time body = Some (Aware es eo)
      \<and> es - eo \<le> ws - wo"
  then show "post_event kolkata d body
           = (Inl (RequestValidationError [''End time must be after start time'']), d)"
    by (simp add: post_event_def parse_EventCreate_Some [where s = "Aware ws wo"
          and t = "Aware es eo"] ensure_timezone_awareness_Aware instant_def)
next
  assume "post_event kolkata d2 body2 = (r, d')"
  then show "d' = d2 \<or> (\<exists>ev. d' = d2\<lparr>events := events d2 @ [ev]\<rparr>
                          \<and> ev_start_time ev < ev_end_time ev)"
    by (rule post_event_created)
next
  fix resp
  assume "post_event kolkata d2 body2 = (r, d')" and "r = Inr resp"
  then have "post_event kolkata d2 body2 = (Inr resp, d')" by simp
  then show "instant (er_start_time resp) < instant (er_end_time resp)"
    by (rule post_event_response)
qed

lemma post_conference:
  "post_event ist_offset empty_db conference_json
   = (Inr \<lparr>er_id = 1, er_name = ''Tech Conference 2025'',
           er_location = ''Bangalore International Exhibition Centre'',
           er_start_time = \<lparr>wall = 1893436200000000, utcoffset = 19800000000\<rparr>,
           er_end_time = \<lparr>wall = 1893443400000000, utcoffset = 19800000000\<rparr>,
           er_max_capacity = 500\<rparr>,
      \<lparr>events = [conference], attendees = []\<rparr>)"
  by (simp add: post_event_def parse_EventCreate_def validate_EventBase_def
      validate_start_time_def validate_end_time_def end_time_must_be_after_start_time_def
      ensure_timezone_awareness_def instant_def ist_offset_def create_event_def
      astimezone_def pytz_utc_def in_range_def datetime_min_def datetime_max_def
      sqlite_integer_def next_id_def empty_db_def new_EventResponse_def orm_fields_def
      conference_json_def conference_def Let_def)

theorem end_not_after_start_rejected_witness:
  "post_event ist_offset empty_db
      (conference_json\<lparr>json_end_time := Some (Aware 1893456000000000 19800000000)\<rparr>)
     = (Inl (RequestValidationError [''End time must be after start time'']), empty_db)
   \<and> (\<exists>ev. \<lparr>events = [conference], attendees = []\<rparr>
             = empty_db\<lparr>events := events empty_db @ [ev]\<rparr>
           \<and> ev_start_time ev < ev_end_time ev)
   \<and> instant \<lparr>wall = 1893436200000000, utcoffset = 19800000000\<rparr>
       < instant \<lparr>wall = 1893443400000000, utcoffset = 19800000000\<rparr>"
  using end_not_after_start_rejected
    [of "conference_json\<lparr>json_end_time := Some (Aware 1893456000000000 19800000000)\<rparr>"
        1893456000000000 19800000000 1893456000000000 19800000000
        ist_offset empty_db empty_db conference_json
        "Inr \<lparr>er_id = 1, er_name = ''Tech Conference 2025'',
           er_location = ''Bangalore International Exhibition Centre'',
           er_start_time = \<lparr>wall = 1893436200000000, utcoffset = 19800000000\<rparr>,
           er_end_time = \<lparr>wall = 1893443400000000, utcoffset = 19800000000\<rparr>,
           er_max_capacity = 500\<rparr>"
        "\<lparr>events = [conference], attendees = []\<rparr>"]
    post_conference
  by (simp add: conference_json_def empty_db_def)

text \<open>
  C9 (as the code has it). The store returns the UTC wall clock of an event without
  \<open>tzinfo\<close>, and \<open>astimezone\<close> on a naive value takes it for local time of the process.
  The conference of \<open>test_create_event\<close> starts at 2030-01-01T00:00:00+05:30 and is
  stored with the UTC wall clock 2029-12-31T18:30:00. Listed on 2027-01-15 for the zone
  UTC by a process whose local zone is Asia/Kolkata, it starts at 2029-12-31T13:00:00+00:00,
  five and a half hours before the stored instant; a process whose local zone is UTC
  lists it at the stored instant.
\<close>

theorem display_depends_on_local_zone:
  "snd (post_event ist_offset empty_db conference_json)
     = \<lparr>events = [conference], attendees = []\<rparr>
   \<and> ev_start_time conference = 1893436200000000
   \<and> read_events ist_offset ist_offset tz_names
        \<lparr>events = [conference], attendees = []\<rparr> 1800000000000000 0 10 ''UTC''
     = Inr [\<lparr>er_id = 1, er_name = ''Tech Conference 2025'',
             er_location = ''Bangalore International Exhibition Centre'',
             er_start_time = \<lparr>wall = 1893416400000000, utcoffset = 0\<rparr>,
             er_end_time = \<lparr>wall = 1893423600000000, utcoffset = 0\<rparr>,
             er_max_capacity = 500\<rparr>]
   \<and> read_events utc_offset ist_offset tz_names
        \<lparr>events = [conference], attendees = []\<rparr> 1800000000000000 0 10 ''UTC''
     = Inr [\<lparr>er_id = 1, er_name = ''Tech Conference 2025'',
             er_location = ''Bangalore International Exhibition Centre'',
             er_start_time = \<lparr>wall = 1893436200000000, utcoffset = 0\<rparr>,
             er_end_time = \<lparr>wall = 1893443400000000, utcoffset = 0\<rparr>,
             er_max_capacity = 500\<rparr>]"
  by (simp add: post_conference read_events_def tz_names_def get_events_def
      offset_limit_def sqlite_integer_def conference_def response_event_data_def astimezone_naive_def
      astimezone_def pytz_utc_def ist_offset_def utc_offset_def in_range_def
      datetime_min_def datetime_max_def new_EventResponse_def validate_EventBase_def
      validate_start_time_def validate_end_time_def end_time_must_be_after_start_time_def
      ensure_timezone_awareness_def instant_def Let_def)

section \<open>Registration\<close>

lemma register_attendee_unfold:
  "register_attendee d event_id a =
     (case select_event d event_id of
        Inl e \<Rightarrow> Inl e
      | Inr None \<Rightarrow> Inl NotFound
      | Inr (Some ev) \<Rightarrow>
          if count_attendees d event_id \<ge> ev_max_capacity ev then Inl CapacityExceeded
          else if filter (\<lambda>x. at_event_id x = event_id \<and> at_email x = ac_email a)
                    (attendees d) \<noteq> []
          then Inl DuplicateRegistration
          else Inr (\<lparr>at_id = next_id (map at_id (attendees d)), at_name = ac_name a,
                     at_email = ac_email a, at_event_id = event_id\<rparr>,
                    d\<lparr>attendees := attendees d @
                       [\<lparr>at_id = next_id (map at_id (attendees d)), at_name = ac_name a,
                         at_email = ac_email a, at_event_id = event_id\<rparr>]\<rparr>))"
proof -
  have eq: "(\<lambda>x. at_email x = ac_email a \<and> at_event_id x = event_id)
          = (\<lambda>x. at_event_id x = event_id \<and> at_email x = ac_email a)"
    by auto
  show ?thesis
    by (simp add: register_attendee_def register_attendee_at_def commit_attendee_def
        first_def Let_def eq split: sum.splits option.splits list.splits)
qed


lemma select_event_cong: "events d' = events d \<Longrightarrow> select_event d' e = select_event d e"
  by (simp add: select_event_def)






lemma select_meetup: "select_event test_db 2 = Inr (Some meetup)"
  by (simp add: select_event_def sqlite_integer_def test_db_def workshop_def meetup_def
      first_def)

lemma count_test_db: "count_attendees test_db e = 0"
  by (simp add: count_attendees_def attendees_of_def test_db_def)


lemma register_first_user_workshop:
  "register_attendee test_db 1 first_user = Inr (first_row 1, one_seat_taken)"
  by (simp add: register_attendee_unfold select_event_def sqlite_integer_def first_def
      count_attendees_def attendees_of_def test_db_def workshop_def meetup_def
      first_user_def next_id_def first_row_def one_seat_taken_def)




text \<open>
  C5 (as the code has it). The capacity check comes before the duplicate check. On the
  one-seat workshop the first registration of first@example.com succeeds and the second
  registration of the same pair fails with "Event is at full capacity", not with the
  duplicate error.
\<close>

theorem second_registration_full:
  "register_attendee test_db 1 first_user = Inr (first_row 1, one_seat_taken)
   \<and> register_attendee one_seat_taken 1 first_user = Inl CapacityExceeded
   \<and> CapacityExceeded \<noteq> DuplicateRegistration"
proof -
  have "register_attendee one_seat_taken 1 first_user = Inl CapacityExceeded"
    by (simp add: one_seat_taken_def register_attendee_unfold select_event_def
        sqlite_integer_def first_def count_attendees_def attendees_of_def workshop_def
        meetup_def first_row_def)
  with register_first_user_workshop show ?thesis by simp
qed

text \<open>
  C5, amended. For every existing event with a free seat and every name/email pair
  whose email is not yet registered for it, the first registration succeeds, and a
  second sequential registration with the same (event_id, email), under any name,
  fails: with the duplicate error when a seat is still free after the first, and with
  "Event is at full capacity" when the first took the last seat.
\<close>

theorem duplicate_registration:
  assumes "select_event d event_id = Inr (Some ev)"
    and "count_attendees d event_id < ev_max_capacity ev"
    and "filter (\<lambda>x. at_event_id x = event_id \<and> at_email x = ac_email a) (attendees d) = []"
    and "ac_email a2 = ac_email a"
  shows "\<exists>row d'. register_attendee d event_id a = Inr (row, d')
           \<and> register_attendee d' event_id a2 =
               (if count_attendees d event_id + 1 < ev_max_capacity ev
                then Inl DuplicateRegistration else Inl CapacityExceeded)"
proof -
  let ?row = "\<lparr>at_id = next_id (map at_id (attendees d)), at_name = ac_name a,
               at_email = ac_email a, at_event_id = event_id\<rparr>"
  let ?d = "d\<lparr>attendees := attendees d @ [?row]\<rparr>"
  from assms have r: "register_attendee d event_id a = Inr (?row, ?d)"
    by (simp add: register_attendee_unfold)
  have sel: "select_event ?d event_id = Inr (Some ev)"
    using assms(1) select_event_cong[of ?d d event_id] by simp
  have cnt: "count_attendees ?d event_id = count_attendees d event_id + 1"
    by (simp add: count_attendees_def attendees_of_def)
  have dup: "filter (\<lambda>x. at_event_id x = event_id \<and> at_email x = ac_email a2)
               (attendees ?d) \<noteq> []"
    using assms(4) by simp
  have "register_attendee ?d event_id a2 =
               (if count_attendees d event_id + 1 < ev_max_capacity ev
                then Inl DuplicateRegistration else Inl CapacityExceeded)"
    unfolding register_attendee_unfold[of ?d event_id a2] sel cnt
    using dup by (simp del: filter_append filter.simps)
  with r show ?thesis by blast
qed

theorem duplicate_registration_witness:
  "\<exists>row d'. register_attendee test_db 2 first_user = Inr (row, d')
      \<and> register_attendee d' 2
           \<lparr>ac_name = ''Another Name'', ac_email = ''first@example.com''\<rparr>
          = Inl DuplicateRegistration"
  using duplicate_registration
    [of test_db 2 meetup first_user
        "\<lparr>ac_name = ''Another Name'', ac_email = ''first@example.com''\<rparr>"]
    select_meetup count_test_db [of 2]
  by (simp add: meetup_def test_db_def first_user_def)

text \<open>
  C3 (as the code has it). \<open>register_attendee\<close> has no handler around the commit. When
  another request has committed the same (email, event) between the duplicate check and
  the commit, the commit's \<open>IntegrityError\<close> reaches the caller as it is, status 500.
\<close>

theorem integrity_error_surfaces:
  "register_attendee_at test_db \<lparr>events = [workshop, meetup], attendees = [first_row 2]\<rparr>
      2 first_user = Inl StorageFailure
   \<and> \<not> is_client_error StorageFailure"
  by (simp add: register_attendee_at_def commit_attendee_def select_event_def
      sqlite_integer_def first_def count_attendees_def attendees_of_def test_db_def
      workshop_def meetup_def first_user_def first_row_def is_client_error_def)

text \<open>
  C3, amended. If the insert of \<open>register_attendee\<close> violates the uniqueness
  constraint on (email, event_id), which takes a commit of the same pair by another
  request after the duplicate check, the operation fails with the unhandled
  \<open>IntegrityError\<close> (status 500, no client error), not with the duplicate error; under
  sequential execution the insert never violates the constraint.
\<close>

theorem integrity_error_propagates:
  assumes "select_event d event_id = Inr (Some ev)"
    and "count_attendees d event_id < ev_max_capacity ev"
    and "filter (\<lambda>x. at_event_id x = event_id \<and> at_email x = ac_email a) (attendees d) = []"
    and "filter (\<lambda>x. at_email x = ac_email a \<and> at_event_id x = event_id)
            (attendees d_commit) \<noteq> []"
  shows "register_attendee_at d d_commit event_id a = Inl IntegrityError
     \<and> status_code IntegrityError = 500
     \<and> \<not> is_client_error IntegrityError
     \<and> register_attendee d event_id a \<noteq> Inl IntegrityError"
proof -
  from assms have "register_attendee_at d d_commit event_id a = Inl IntegrityError"
    by (simp add: register_attendee_at_def commit_attendee_def first_def)
  moreover from assms(1-3) have "register_attendee d event_id a \<noteq> Inl IntegrityError"
    by (simp add: register_attendee_unfold)
  ultimately show ?thesis by (simp add: is_client_error_def)
qed

theorem integrity_error_propagates_witness:
  "register_attendee_at test_db \<lparr>events = [workshop, meetup], attendees = [first_row 2]\<rparr>
      2 first_user = Inl IntegrityError
   \<and> register_attendee test_db 2 first_user \<noteq> Inl IntegrityError"
  using integrity_error_propagates
    [of test_db 2 meetup first_user
        "\<lparr>events = [workshop, meetup], attendees = [first_row 2]\<rparr>"]
    select_meetup count_test_db [of 2]
  by (simp add: meetup_def test_db_def first_user_def first_row_def)

lemma get_events_subset:
  assumes "get_events d now_utc skip limit = Inr evs"
  shows "set evs \<subseteq> {e \<in> set (events d). now_utc < ev_end_time e}"
proof -
  let ?xs = "sort_key ev_start_time (filter (\<lambda>e. ev_end_time e > now_utc) (events d))"
  from assms have "evs = drop (nat skip) ?xs \<or> evs = take (nat limit) (drop (nat skip) ?xs)"
    by (auto simp: get_events_def offset_limit_def split: if_splits)
  moreover have "set (take (nat limit) (drop (nat skip) ?xs)) \<subseteq> set (drop (nat skip) ?xs)"
    by (rule set_take_subset)
  moreover have "set (drop (nat skip) ?xs) \<subseteq> set ?xs"
    by (rule set_drop_subset)
  ultimately have "set evs \<subseteq> set ?xs" by auto
  then show ?thesis by auto
qed

text \<open>
  C10. \<open>register_attendee\<close> never looks at the event's time window: for every existing
  event whose end is not after \<open>now_utc\<close>, a registration with an email not yet
  registered for it, while a seat is free, succeeds and adds the row, although no
  listing of \<open>get_events\<close> at \<open>now_utc\<close> holds the event, whatever the offset and limit.
\<close>

theorem past_event_registration:
  assumes "select_event d event_id = Inr (Some ev)"
    and "ev_end_time ev \<le> now_utc"
    and "count_attendees d event_id < ev_max_capacity ev"
    and "filter (\<lambda>x. at_event_id x = event_id \<and> at_email x = ac_email a) (attendees d) = []"
  shows "(\<exists>row d'. register_attendee d event_id a = Inr (row, d')
            \<and> attendees d' = attendees d @ [row] \<and> events d' = events d
            \<and> at_event_id row = event_id \<and> at_email row = ac_email a)
     \<and> (\<forall>evs. get_events d now_utc skip limit = Inr evs \<longrightarrow> ev \<notin> set evs)"
proof (intro conjI allI impI)
  from assms(1,3,4)
  show "\<exists>row d'. register_attendee d event_id a = Inr (row, d')
            \<and> attendees d' = attendees d @ [row] \<and> events d' = events d
            \<and> at_event_id row = event_id \<and> at_email row = ac_email a"
    by (simp add: register_attendee_unfold)
next
  fix evs assume "get_events d now_utc skip limit = Inr evs"
  from get_events_subset[OF this] assms(2) show "ev \<notin> set evs" by auto
qed

theorem past_event_registration_witness:
  "(\<exists>row d'. register_attendee test_db 2 first_user = Inr (row, d')
       \<and> attendees d' = attendees test_db @ [row] \<and> events d' = events test_db
       \<and> at_event_id row = 2 \<and> at_email row = ac_email first_user)
   \<and> get_events test_db 5000 0 10 = Inr []"
proof -
  have g: "get_events test_db 5000 0 10 = Inr []"
    by (simp add: get_events_def offset_limit_def sqlite_integer_def test_db_def
        workshop_def meetup_def)
  from past_event_registration [of test_db 2 meetup 5000 first_user 0 10]
    select_meetup count_test_db [of 2]
  have "\<exists>row d'. register_attendee test_db 2 first_user = Inr (row, d')
       \<and> attendees d' = attendees test_db @ [row] \<and> events d' = events test_db
       \<and> at_event_id row = 2 \<and> at_email row = ac_email first_user"
    by (simp add: meetup_def test_db_def first_user_def)
  with g show ?thesis by simp
qed

section \<open>Pagination\<close>

lemma ceil_div_bounds:
  fixes T S :: int
  assumes "0 < S"
  shows "((T + S - 1) div S - 1) * S < T \<and> T \<le> ((T + S - 1) div S) * S"
proof -
  define q where "q = (T + S - 1) div S"
  define r where "r = (T + S - 1) mod S"
  have m: "T + S - 1 = q * S + r" by (simp add: q_def r_def)
  have r: "0 \<le> r" "r < S" using assms by (simp_all add: r_def)
  have "(q - 1) * S = q * S - S" by (simp add: algebra_simps)
  with m r have "(q - 1) * S < T \<and> T \<le> q * S" by linarith
  then show ?thesis by (simp add: q_def)
qed

lemma ceil_div_int:
  fixes T S :: int
  assumes "0 < S"
  shows "\<lceil>real_of_int T / real_of_int S\<rceil> = (T + S - 1) div S"
proof (rule ceiling_unique)
  let ?q = "(T + S - 1) div S"
  from ceil_div_bounds[OF assms, of T]
  have lo: "(?q - 1) * S < T" and hi: "T \<le> ?q * S" by blast+
  from assms have S: "0 < real_of_int S" by simp
  from lo have "real_of_int ((?q - 1) * S) < real_of_int T" by (simp only: of_int_less_iff)
  then have "(real_of_int ?q - 1) * real_of_int S < real_of_int T" by simp
  with S show "real_of_int ?q - 1 < real_of_int T / real_of_int S"
    by (simp add: pos_less_divide_eq)
  from hi have "real_of_int T \<le> real_of_int (?q * S)" by (simp only: of_int_le_iff)
  then have "real_of_int T \<le> real_of_int ?q * real_of_int S" by simp
  with S show "real_of_int T / real_of_int S \<le> real_of_int ?q"
    by (simp add: pos_divide_le_eq)
qed

lemma pages_nonneg:
  fixes T S :: int
  assumes "0 < S" "0 \<le> T"
  shows "0 \<le> (T + S - 1) div S"
  using assms by (simp add: pos_imp_zdiv_nonneg_iff)

lemma get_attendees_clamped:
  "get_attendees_for_event d event_id p s =
     get_attendees_for_event d event_id (if p < 1 then 1 else p) (if s < 1 then 10 else s)"
  by (simp add: get_attendees_for_event_def)

lemma get_attendees_ok:
  assumes "select_event d event_id = Inr (Some ev)"
    and "1 \<le> p" and "1 \<le> S"
    and "sqlite_integer ((p - 1) * S)" and "sqlite_integer S"
  shows "get_attendees_for_event d event_id p S =
     Inr \<lparr>total = count_attendees d event_id, page = p, size_r = S,
          pages = (count_attendees d event_id + S - 1) div S,
          items = take (nat S) (drop (nat ((p - 1) * S))
                    (sort_key at_id (attendees_of d event_id)))\<rparr>"
  using assms by (simp add: get_attendees_for_event_def offset_limit_def Let_def)

lemma sqlite_integer_between:
  "0 \<le> x \<Longrightarrow> x \<le> 9223372036854775807 \<Longrightarrow> sqlite_integer x"
  by (simp add: sqlite_integer_def)

lemma length_sorted_attendees:
  "int (length (sort_key at_id (attendees_of d event_id))) = count_attendees d event_id"
  by (simp add: count_attendees_def)

lemma collect_pages_take:
  assumes sel: "select_event d event_id = Inr (Some ev)"
    and S: "1 \<le> S" "S \<le> 9223372036854775807"
    and T: "count_attendees d event_id \<le> 9223372036854775807"
  shows "int n \<le> (count_attendees d event_id + S - 1) div S \<Longrightarrow>
     collect_pages d event_id S n =
       Inr (take (n * nat S) (sort_key at_id (attendees_of d event_id)))"
proof (induction n)
  case 0
  then show ?case by simp
next
  case (Suc n)
  let ?T = "count_attendees d event_id"
  let ?xs = "sort_key at_id (attendees_of d event_id)"
  from Suc.prems have le: "int n \<le> (?T + S - 1) div S - 1" by simp
  from S have S0: "0 < S" by simp
  from ceil_div_bounds[OF S0, of ?T] have lo: "((?T + S - 1) div S - 1) * S < ?T" by blast
  from le S0 have "int n * S \<le> ((?T + S - 1) div S - 1) * S"
    by (simp add: mult_right_mono)
  with lo T have off: "int n * S \<le> 9223372036854775807" by linarith
  from S0 have off0: "0 \<le> int n * S" by simp
  have p: "(int (Suc n) - 1) * S = int n * S" by simp
  from sqlite_integer_between[OF off0 off] have b1: "sqlite_integer ((int (Suc n) - 1) * S)"
    by (simp only: p)
  from S have b2: "sqlite_integer S" by (simp add: sqlite_integer_def)
  have one: "1 \<le> int (Suc n)" by simp
  from get_attendees_ok[OF sel one S(1) b1 b2]
  have g: "get_attendees_for_event d event_id (int (Suc n)) S =
     Inr \<lparr>total = ?T, page = int (Suc n), size_r = S,
          pages = (?T + S - 1) div S,
          items = take (nat S) (drop (nat (int n * S)) ?xs)\<rparr>"
    by (simp only: p)
  from S0 have n: "nat (int n * S) = n * nat S"
    by (simp add: nat_mult_distrib)
  from Suc.prems have "int n \<le> (?T + S - 1) div S" by simp
  from Suc.IH[OF this] have ih: "collect_pages d event_id S n = Inr (take (n * nat S) ?xs)" .
  have "take (Suc n * nat S) ?xs = take (n * nat S) ?xs @ take (nat S) (drop (n * nat S) ?xs)"
    using take_add[of "n * nat S" "nat S" ?xs] by (simp add: add.commute)
  with ih g n show ?case by simp
qed

lemma get_attendees_Inr:
  assumes "get_attendees_for_event d event_id p s = Inr r"
  shows "page r = (if p < 1 then 1 else p)"
    and "size_r r = (if s < 1 then 10 else s)"
    and "total r = count_attendees d event_id"
    and "pages r = (total r + size_r r - 1) div size_r r"
    and "items r = take (nat (size_r r)) (drop (nat ((page r - 1) * size_r r))
                     (sort_key at_id (attendees_of d event_id)))"
  using assms
  by (auto simp: get_attendees_for_event_def offset_limit_def Let_def
      split: sum.splits option.splits if_splits)

lemma select_meetup_full: "select_event meetup_full 2 = Inr (Some meetup)"
  by (simp add: select_event_def sqlite_integer_def meetup_full_def workshop_def meetup_def
      first_def)

lemma count_meetup_full: "count_attendees meetup_full 2 = 2"
  by (simp add: count_attendees_def attendees_of_def meetup_full_def first_row_def
      second_row_def)

lemma sorted_meetup_full:
  "sort_key at_id (attendees_of meetup_full 2) = [first_row 2, second_row 2]"
  by (simp add: attendees_of_def meetup_full_def first_row_def second_row_def)

lemma list_meetup_full:
  "get_attendees_for_event meetup_full 2 0 (- 3) =
     Inr \<lparr>total = 2, page = 1, size_r = 10, pages = 1,
          items = [first_row 2, second_row 2]\<rparr>"
  by (simp add: get_attendees_for_event_def select_meetup_full count_meetup_full
      sorted_meetup_full offset_limit_def sqlite_integer_def Let_def)

text \<open>
  C8. Every call of \<open>get_attendees_for_event\<close> is the call with the page clamped to 1
  when below 1 and the size replaced by 10 when below 1. Every result it returns has the
  clamped page and size in the fields \<open>page\<close> and \<open>size\<close>, and as items the attendees of
  the event in id order from offset \<open>(page - 1) * size\<close> on, at most \<open>size\<close> of them, the
  offset taken from the clamped values. And the call does return a result for every
  existing event, provided the offset and the size so clamped are 64-bit integers.
\<close>

theorem page_and_size_clamped:
  "get_attendees_for_event d event_id p s
     = get_attendees_for_event d event_id (if p < 1 then 1 else p) (if s < 1 then 10 else s)
   \<and> (get_attendees_for_event d event_id p s = Inr r
      \<longrightarrow> page r = (if p < 1 then 1 else p)
        \<and> size_r r = (if s < 1 then 10 else s)
        \<and> total r = count_attendees d event_id
        \<and> pages r = (total r + size_r r - 1) div size_r r
        \<and> items r = take (nat (size_r r)) (drop (nat ((page r - 1) * size_r r))
                         (sort_key at_id (attendees_of d event_id))))
   \<and> (select_event d2 event_id2 = Inr (Some ev)
        \<and> sqlite_integer (((if p2 < 1 then 1 else p2) - 1) * (if s2 < 1 then 10 else s2))
        \<and> sqlite_integer (if s2 < 1 then 10 else s2)
      \<longrightarrow> (\<exists>r2. get_attendees_for_event d2 event_id2 p2 s2 = Inr r2))"
proof (intro conjI impI)
  show "get_attendees_for_event d event_id p s
     = get_attendees_for_event d event_id (if p < 1 then 1 else p) (if s < 1 then 10 else s)"
    by (rule get_attendees_clamped)
next
  assume r: "get_attendees_for_event d event_id p s = Inr r"
  show "page r = (if p < 1 then 1 else p)" by (rule get_attendees_Inr(1)[OF r])
  show "size_r r = (if s < 1 then 10 else s)" by (rule get_attendees_Inr(2)[OF r])
  show "total r = count_attendees d event_id" by (rule get_attendees_Inr(3)[OF r])
  show "pages r = (total r + size_r r - 1) div size_r r" by (rule get_attendees_Inr(4)[OF r])
  show "items r = take (nat (size_r r)) (drop (nat ((page r - 1) * size_r r))
                         (sort_key at_id (attendees_of d event_id)))"
    by (rule get_attendees_Inr(5)[OF r])
next
  let ?p = "if p2 < 1 then 1 else p2"
  let ?s = "if s2 < 1 then 10 else s2"
  assume h: "select_event d2 event_id2 = Inr (Some ev)
        \<and> sqlite_integer ((?p - 1) * ?s) \<and> sqlite_integer ?s"
  then have sel: "select_event d2 event_id2 = Inr (Some ev)"
    and b1: "sqlite_integer ((?p - 1) * ?s)" and b2: "sqlite_integer ?s"
    by blast+
  have p: "1 \<le> ?p" by simp
  have s: "1 \<le> ?s" by simp
  from get_attendees_ok[OF sel p s b1 b2] get_attendees_clamped[of d2 event_id2 p2 s2]
  show "\<exists>r2. get_attendees_for_event d2 event_id2 p2 s2 = Inr r2" by simp
qed

theorem page_and_size_clamped_witness:
  "get_attendees_for_event meetup_full 2 0 (- 3) = get_attendees_for_event meetup_full 2 1 10
   \<and> page \<lparr>total = 2, page = 1, size_r = 10, pages = 1,
            items = [first_row 2, second_row 2]\<rparr> = 1
   \<and> size_r \<lparr>total = 2, page = 1, size_r = 10, pages = 1,
            items = [first_row 2, second_row 2]\<rparr> = 10
   \<and> (\<exists>r2. get_attendees_for_event meetup_full 2 0 (- 3) = Inr r2)"
proof -
  let ?r = "\<lparr>total = 2, page = 1, size_r = 10, pages = 1,
             items = [first_row 2, second_row 2]\<rparr>"
  note t = page_and_size_clamped [of meetup_full 2 0 "- 3" ?r meetup_full 2 meetup 0 "- 3"]
  from t have c1: "get_attendees_for_event meetup_full 2 0 (- 3)
      = get_attendees_for_event meetup_full 2 (if (0::int) < 1 then 1 else 0)
          (if (- 3::int) < 1 then 10 else - 3)"
    by blast
  from t have c2: "get_attendees_for_event meetup_full 2 0 (- 3) = Inr ?r
      \<longrightarrow> page ?r = (if (0::int) < 1 then 1 else 0)
        \<and> size_r ?r = (if (- 3::int) < 1 then 10 else - 3)"
    by blast
  from t have c3: "select_event meetup_full 2 = Inr (Some meetup)
        \<and> sqlite_integer (((if (0::int) < 1 then 1 else 0) - 1)
              * (if (- 3::int) < 1 then 10 else - 3))
        \<and> sqlite_integer (if (- 3::int) < 1 then 10 else - 3)
      \<longrightarrow> (\<exists>r2. get_attendees_for_event meetup_full 2 0 (- 3) = Inr r2)"
    by blast
  from c1 have a: "get_attendees_for_event meetup_full 2 0 (- 3)
      = get_attendees_for_event meetup_full 2 1 10"
    by simp
  from c2 list_meetup_full have b: "page ?r = 1 \<and> size_r ?r = 10" by simp
  have "sqlite_integer (((if (0::int) < 1 then 1 else 0) - 1)
              * (if (- 3::int) < 1 then 10 else - 3))
        \<and> sqlite_integer (if (- 3::int) < 1 then 10 else - 3)"
    by (simp add: sqlite_integer_def)
  with c3 select_meetup_full
  have c: "\<exists>r2. get_attendees_for_event meetup_full 2 0 (- 3) = Inr r2" by blast
  from a b c show ?thesis by blast
qed

text \<open>
  C6 (as the code has it). The offset and the size are parameters of the statement, and
  the driver takes 64-bit integers only. With two attendees and size 1 there are two
  pages; the page \<open>2^63 + 1\<close> is greater than that and has the offset \<open>2^63\<close>: the
  call fails with \<open>OverflowError\<close>, status 500, instead of returning no items. The same
  happens on page 1 with the size \<open>2^63\<close>.
\<close>

theorem huge_page_overflows:
  "get_attendees_for_event meetup_full 2 1 1 =
     Inr \<lparr>total = 2, page = 1, size_r = 1, pages = 2, items = [first_row 2]\<rparr>
   \<and> get_attendees_for_event meetup_full 2 9223372036854775809 1 = Inl OverflowError
   \<and> get_attendees_for_event meetup_full 2 1 9223372036854775808 = Inl OverflowError
   \<and> status_code OverflowError = 500"
  by (simp add: get_attendees_for_event_def select_meetup_full count_meetup_full
      sorted_meetup_full offset_limit_def sqlite_integer_def Let_def)

text \<open>
  C6, amended. For every existing event with \<open>T\<close> attendees and every size \<open>S\<close> from 1
  to \<open>2^63 - 1\<close>, \<open>T\<close> itself at most \<open>2^63 - 1\<close>: every page \<open>p \<ge> 1\<close> whose offset
  \<open>(p - 1) * S\<close> is at most \<open>2^63 - 1\<close> is returned without an error, with
  \<open>total = T\<close> and \<open>pages = ceil(T / S)\<close>, which is 0 when \<open>T = 0\<close>; fetching the
  pages 1 to \<open>pages\<close> one after the other succeeds, and their item lists concatenated are
  the attendees of the event in ascending id order, each as often as the store holds it;
  and every such page greater than \<open>pages\<close> has no items.
\<close>

theorem pages_cover_attendees:
  assumes "select_event d event_id = Inr (Some ev)"
    and "1 \<le> S" and "S \<le> 9223372036854775807"
    and "count_attendees d event_id \<le> 9223372036854775807"
    and "1 \<le> p" and "(p - 1) * S \<le> 9223372036854775807"
  shows "\<exists>r. get_attendees_for_event d event_id p S = Inr r
           \<and> total r = count_attendees d event_id
           \<and> pages r = \<lceil>real_of_int (count_attendees d event_id) / real_of_int S\<rceil>
           \<and> (count_attendees d event_id = 0 \<longrightarrow> pages r = 0)
           \<and> 0 \<le> pages r
           \<and> collect_pages d event_id S (nat (pages r))
               = Inr (sort_key at_id (attendees_of d event_id))
           \<and> sorted (map at_id (sort_key at_id (attendees_of d event_id)))
           \<and> mset (sort_key at_id (attendees_of d event_id))
               = mset (attendees_of d event_id)
           \<and> int (length (sort_key at_id (attendees_of d event_id)))
               = count_attendees d event_id
           \<and> (pages r < p \<longrightarrow> items r = [])"
proof -
  let ?T = "count_attendees d event_id"
  let ?xs = "sort_key at_id (attendees_of d event_id)"
  let ?q = "(?T + S - 1) div S"
  from assms(2) have S0: "0 < S" by simp
  have T0: "0 \<le> ?T" by (simp add: count_attendees_def)
  from assms(2,5) have off0: "0 \<le> (p - 1) * S" by simp
  from sqlite_integer_between[OF off0 assms(6)] have b1: "sqlite_integer ((p - 1) * S)" .
  from assms(2,3) have b2: "sqlite_integer S" by (simp add: sqlite_integer_def)
  let ?r = "\<lparr>total = ?T, page = p, size_r = S, pages = ?q,
             items = take (nat S) (drop (nat ((p - 1) * S)) ?xs)\<rparr>"
  from get_attendees_ok[OF assms(1) assms(5) assms(2) b1 b2]
  have g: "get_attendees_for_event d event_id p S = Inr ?r" .
  have c: "?q = \<lceil>real_of_int ?T / real_of_int S\<rceil>"
    using ceil_div_int[OF S0, of ?T] by simp
  have z: "?T = 0 \<longrightarrow> ?q = 0" using S0 by simp
  have q0: "0 \<le> ?q" by (rule pages_nonneg[OF S0 T0])
  from ceil_div_bounds[OF S0, of ?T] have hi: "?T \<le> ?q * S" by blast
  have len: "int (length ?xs) = ?T" by (rule length_sorted_attendees)
  from q0 have "int (nat ?q) \<le> ?q" by simp
  from collect_pages_take[OF assms(1) assms(2) assms(3) assms(4) this]
  have cp: "collect_pages d event_id S (nat ?q) = Inr (take (nat ?q * nat S) ?xs)" .
  from q0 S0 have "int (nat ?q * nat S) = ?q * S" by simp
  with hi len have "length ?xs \<le> nat ?q * nat S" by linarith
  with cp have all: "collect_pages d event_id S (nat ?q) = Inr ?xs" by simp
  have empty: "?q < p \<longrightarrow> take (nat S) (drop (nat ((p - 1) * S)) ?xs) = []"
  proof
    assume "?q < p"
    then have "?q \<le> p - 1" by simp
    with S0 have "?q * S \<le> (p - 1) * S" by (simp add: mult_right_mono)
    with hi len have "int (length ?xs) \<le> (p - 1) * S" by linarith
    then have "length ?xs \<le> nat ((p - 1) * S)" by linarith
    then show "take (nat S) (drop (nat ((p - 1) * S)) ?xs) = []" by simp
  qed
  have props: "total ?r = ?T \<and> pages ?r = \<lceil>real_of_int ?T / real_of_int S\<rceil>
      \<and> (?T = 0 \<longrightarrow> pages ?r = 0) \<and> 0 \<le> pages ?r
      \<and> collect_pages d event_id S (nat (pages ?r)) = Inr ?xs
      \<and> sorted (map at_id ?xs) \<and> mset ?xs = mset (attendees_of d event_id)
      \<and> int (length ?xs) = ?T
      \<and> (pages ?r < p \<longrightarrow> items ?r = [])"
    using c z q0 all len empty by simp
  from g props show ?thesis by blast
qed

theorem pages_cover_attendees_witness:
  "\<exists>r. get_attendees_for_event meetup_full 2 3 1 = Inr r
      \<and> total r = 2 \<and> pages r = 2
      \<and> collect_pages meetup_full 2 1 (nat (pages r)) = Inr [first_row 2, second_row 2]
      \<and> items r = []"
proof -
  from pages_cover_attendees [of meetup_full 2 meetup 1 3] select_meetup_full
  obtain r where r: "get_attendees_for_event meetup_full 2 3 1 = Inr r"
    and t: "total r = 2" and p: "pages r = 2"
    and c: "collect_pages meetup_full 2 1 (nat (pages r)) = Inr [first_row 2, second_row 2]"
    and e: "pages r < 3 \<longrightarrow> items r = []"
    by (auto simp: count_meetup_full sorted_meetup_full)
  from p e have "items r = []" by simp
  with r t p c show ?thesis by blast
qed

end
